theory Spec2Isabelle
  imports
    Complex_Main
    "HOL-Library.AList"
    "HOL-Library.Char_ord"
    "HOL-Library.List_Lexorder"
    "HOL-Library.Multiset"
    "HOL-Library.Sublist"
begin

section \<open>Python values used by the converter\<close>

text \<open>
  The converter of \<^verbatim>\<open>currency_converter.py\<close> handles whatever \<^verbatim>\<open>response.json()\<close>
  returns, so the model keeps the whole shape of a parsed JSON document. A dictionary is an
  association list in insertion order (keys of a parsed object are strings); \<^verbatim>\<open>None\<close> is
  \<open>JNull\<close>. Numbers are exact rationals: the development never relies on rounding.
\<close>

datatype json =
    JNull
  | JBool bool
  | JNum rat
  | JStr string
  | JArr "json list"
  | JObj "(string \<times> json) list"

text \<open>Exceptions that the code can raise on a value of the wrong shape.\<close>

datatype pyerr = TypeError | KeyError | AttributeError | ZeroDivisionError

text \<open>Truth value of an object, as \<^verbatim>\<open>if data\<close> and \<^verbatim>\<open>not rates_data\<close> test it.\<close>

fun truthy :: "json \<Rightarrow> bool" where
  "truthy JNull = False"
| "truthy (JBool b) = b"
| "truthy (JNum r) = (r \<noteq> 0)"
| "truthy (JStr s) = (s \<noteq> [])"
| "truthy (JArr xs) = (xs \<noteq> [])"
| "truthy (JObj kvs) = (kvs \<noteq> [])"

text \<open>\<^verbatim>\<open>sub in s\<close> on two strings: \<open>sub\<close> occurs in \<open>s\<close> as a contiguous piece.\<close>

fun contains_str :: "string \<Rightarrow> string \<Rightarrow> bool" where
  "contains_str sub [] = (sub = [])"
| "contains_str sub (c # cs) = (prefix sub (c # cs) \<or> contains_str sub cs)"

text \<open>
  \<^verbatim>\<open>k in x\<close> for a string \<open>k\<close>: key membership on a dictionary, element membership on a
  list, substring test on a string, and a \<^verbatim>\<open>TypeError\<close> on \<^verbatim>\<open>None\<close>, booleans and numbers.
\<close>

fun py_in :: "string \<Rightarrow> json \<Rightarrow> pyerr + bool" where
  "py_in k (JObj kvs) = Inr (k \<in> fst ` set kvs)"
| "py_in k (JArr xs) = Inr (JStr k \<in> set xs)"
| "py_in k (JStr s) = Inr (contains_str k s)"
| "py_in k JNull = Inl TypeError"
| "py_in k (JBool b) = Inl TypeError"
| "py_in k (JNum r) = Inl TypeError"

text \<open>\<^verbatim>\<open>x[k]\<close> for a string \<open>k\<close>: only a dictionary can be indexed by a string.\<close>

fun py_getitem :: "json \<Rightarrow> string \<Rightarrow> pyerr + json" where
  "py_getitem (JObj kvs) k = (case map_of kvs k of None \<Rightarrow> Inl KeyError | Some v \<Rightarrow> Inr v)"
| "py_getitem JNull k = Inl TypeError"
| "py_getitem (JBool b) k = Inl TypeError"
| "py_getitem (JNum r) k = Inl TypeError"
| "py_getitem (JStr s) k = Inl TypeError"
| "py_getitem (JArr xs) k = Inl TypeError"

text \<open>
  \<^verbatim>\<open>x[k] = v\<close> for a string \<open>k\<close>: an existing key keeps its place, a new key goes to the
  end, which is what \<open>AList.update\<close> does.
\<close>

fun py_setitem :: "json \<Rightarrow> string \<Rightarrow> json \<Rightarrow> pyerr + json" where
  "py_setitem (JObj kvs) k v = Inr (JObj (AList.update k v kvs))"
| "py_setitem JNull k v = Inl TypeError"
| "py_setitem (JBool b) k v = Inl TypeError"
| "py_setitem (JNum r) k v = Inl TypeError"
| "py_setitem (JStr s) k v = Inl TypeError"
| "py_setitem (JArr xs) k v = Inl TypeError"

text \<open>\<^verbatim>\<open>x.keys()\<close>: every other shape has no such attribute.\<close>

fun py_keys :: "json \<Rightarrow> pyerr + string list" where
  "py_keys (JObj kvs) = Inr (map fst kvs)"
| "py_keys JNull = Inl AttributeError"
| "py_keys (JBool b) = Inl AttributeError"
| "py_keys (JNum r) = Inl AttributeError"
| "py_keys (JStr s) = Inl AttributeError"
| "py_keys (JArr xs) = Inl AttributeError"

text \<open>The numeric value of an operand; \<^verbatim>\<open>bool\<close> is a subclass of \<^verbatim>\<open>int\<close>.\<close>

fun py_number :: "json \<Rightarrow> rat option" where
  "py_number (JNum r) = Some r"
| "py_number (JBool b) = Some (if b then 1 else 0)"
| "py_number JNull = None"
| "py_number (JStr s) = None"
| "py_number (JArr xs) = None"
| "py_number (JObj kvs) = None"

text \<open>\<^verbatim>\<open>a / b\<close>.\<close>

definition py_truediv :: "json \<Rightarrow> json \<Rightarrow> pyerr + rat" where
  "py_truediv a b =
     (case py_number a of
        None \<Rightarrow> Inl TypeError
      | Some x \<Rightarrow>
          (case py_number b of
             None \<Rightarrow> Inl TypeError
           | Some y \<Rightarrow> if y = 0 then Inl ZeroDivisionError else Inr (x / y)))"

text \<open>\<^verbatim>\<open>amount * exchange_rate\<close> with a float \<open>amount\<close>.\<close>

definition py_mul :: "rat \<Rightarrow> json \<Rightarrow> pyerr + rat" where
  "py_mul amount v = (case py_number v of None \<Rightarrow> Inl TypeError | Some r \<Rightarrow> Inr (amount * r))"

text \<open>
  \<^verbatim>\<open>s.upper()\<close> on the letters of a currency code: each of the ASCII letters \<open>a\<close> to
  \<open>z\<close> moves to its capital, every other character stays.
\<close>

definition upper_char :: "char \<Rightarrow> char" where
  "upper_char c =
     (case map_of (zip ''abcdefghijklmnopqrstuvwxyz'' ''ABCDEFGHIJKLMNOPQRSTUVWXYZ'') c of
        None \<Rightarrow> c
      | Some u \<Rightarrow> u)"

definition upper :: "string \<Rightarrow> string" where
  "upper s = map upper_char s"

section \<open>The outside world\<close>

text \<open>
  What one \<^verbatim>\<open>requests.get\<close> followed by \<^verbatim>\<open>raise_for_status\<close> and \<^verbatim>\<open>json()\<close> can do:
  the request raises (timeout, connection failure), the status check raises, the body is
  not JSON, or the body parses.
\<close>

datatype response = ConnectionFailed | BadStatus | InvalidJson | Body json

text \<open>
  One call of an operation performs at most one request to the rates API and at most one to
  the national-bank feed, and reads the clock at most once for the age of an entry and once
  for its time stamp. Times are microseconds.
\<close>

record env =
  source_a :: response
  source_b :: response
  now_check :: int
  now_store :: int

text \<open>The two places that issue a request, each with the URL requested.\<close>

datatype http_get = RatesGet string | CbrGet string

section \<open>The converter object\<close>

text \<open>
  The fields of \<^verbatim>\<open>CurrencyConverter\<close>; \<open>http_log\<close> is not a field of the class but the
  trace of the requests issued so far, kept to state which calls reach the network.
\<close>

record converter =
  api_url :: string
  cache :: "(string \<times> json) list"
  cache_timestamps :: "(string \<times> int) list"
  cache_duration :: int
  http_log :: "http_get list"

definition init_converter :: "string \<Rightarrow> converter" where
  "init_converter url =
     \<lparr>api_url = url, cache = [], cache_timestamps = [],
      cache_duration = 5 * 60 * 1000000, http_log = []\<rparr>"

definition cbr_url :: string where
  "cbr_url = ''https://www.cbr-xml-daily.ru/daily_json.js''"

subsection \<open>The national-bank feed\<close>

text \<open>\<^verbatim>\<open>valute[code]["Value"] / valute[code]["Nominal"]\<close>.\<close>

definition cbr_unit_rate :: "json \<Rightarrow> string \<Rightarrow> pyerr + rat" where
  "cbr_unit_rate valute code =
     (case py_getitem valute code of
        Inl e \<Rightarrow> Inl e
      | Inr entry \<Rightarrow>
          (case py_getitem entry ''Value'' of
             Inl e \<Rightarrow> Inl e
           | Inr val \<Rightarrow>
               (case py_getitem entry ''Nominal'' of
                  Inl e \<Rightarrow> Inl e
                | Inr nominal \<Rightarrow> py_truediv val nominal)))"

text \<open>
  \<^verbatim>\<open>if code in valute: rates[code] = ...\<close>, with the dictionary \<open>rates\<close> built so far.
\<close>

definition cbr_add_rate :: "json \<Rightarrow> string \<Rightarrow> (string \<times> rat) list \<Rightarrow> pyerr + (string \<times> rat) list" where
  "cbr_add_rate valute code rates =
     (case py_in code valute of
        Inl e \<Rightarrow> Inl e
      | Inr present \<Rightarrow>
          if present then
            (case cbr_unit_rate valute code of
               Inl e \<Rightarrow> Inl e
             | Inr r \<Rightarrow> Inr (AList.update code r rates))
          else Inr rates)"

text \<open>
  The body of the \<^verbatim>\<open>try\<close> of \<^verbatim>\<open>_get_rub_rate_from_cbr\<close> once the feed has parsed:
  \<open>Inl\<close> is an exception raised inside it.
\<close>

definition cbr_rates :: "json \<Rightarrow> pyerr + (string \<times> rat) list option" where
  "cbr_rates data =
     (case py_in ''Valute'' data of
        Inl e \<Rightarrow> Inl e
      | Inr present \<Rightarrow>
          if present then
            (case py_getitem data ''Valute'' of
               Inl e \<Rightarrow> Inl e
             | Inr valute \<Rightarrow>
                 (case cbr_add_rate valute ''USD'' [] of
                    Inl e \<Rightarrow> Inl e
                  | Inr rates1 \<Rightarrow>
                      (case cbr_add_rate valute ''EUR'' rates1 of
                         Inl e \<Rightarrow> Inl e
                       | Inr rates2 \<Rightarrow> Inr (Some rates2))))
          else Inr None)"

text \<open>The whole \<^verbatim>\<open>try\<close>: a failed request is an exception as well.\<close>

datatype cbr_failure = RequestFailed | Raised pyerr

definition cbr_try :: "response \<Rightarrow> cbr_failure + (string \<times> rat) list option" where
  "cbr_try resp =
     (case resp of
        ConnectionFailed \<Rightarrow> Inl RequestFailed
      | BadStatus \<Rightarrow> Inl RequestFailed
      | InvalidJson \<Rightarrow> Inl RequestFailed
      | Body data \<Rightarrow> (case cbr_rates data of Inl e \<Rightarrow> Inl (Raised e) | Inr r \<Rightarrow> Inr r))"

text \<open>\<^verbatim>\<open>_get_rub_rate_from_cbr\<close>: \<^verbatim>\<open>except Exception: return None\<close> around the \<^verbatim>\<open>try\<close>.\<close>

definition get_rub_rate_from_cbr :: "env \<Rightarrow> converter \<Rightarrow> (string \<times> rat) list option \<times> converter" where
  "get_rub_rate_from_cbr env self =
     (case cbr_try (source_b env) of
        Inl e \<Rightarrow> None
      | Inr r \<Rightarrow> r,
      self\<lparr>http_log := http_log self @ [CbrGet cbr_url]\<rparr>)"

subsection \<open>Fetching and caching a table\<close>

text \<open>
  Lines 17 to 21 of \<^verbatim>\<open>get_exchange_rates\<close>: the cached value when the call is answered
  from the cache, \<open>None\<close> when the call goes on to the request.
\<close>

definition cached_fresh :: "env \<Rightarrow> string \<Rightarrow> bool \<Rightarrow> converter \<Rightarrow> json option" where
  "cached_fresh env base_currency force_update self =
     (if \<not> force_update then
        (case map_of (cache self) base_currency of
           None \<Rightarrow> None
         | Some data \<Rightarrow>
             (case map_of (cache_timestamps self) base_currency of
                None \<Rightarrow> None
              | Some stamp \<Rightarrow>
                  if now_check env - stamp < cache_duration self then Some data else None))
      else None)"

text \<open>\<^verbatim>\<open>data and "rates" in data and "RUB" in data["rates"]\<close>, evaluated left to right.\<close>

definition has_rub_rate :: "json \<Rightarrow> pyerr + bool" where
  "has_rub_rate data =
     (if truthy data then
        (case py_in ''rates'' data of
           Inl e \<Rightarrow> Inl e
         | Inr present \<Rightarrow>
             if present then
               (case py_getitem data ''rates'' of
                  Inl e \<Rightarrow> Inl e
                | Inr rates \<Rightarrow> py_in ''RUB'' rates)
             else Inr False)
      else Inr False)"

text \<open>
  \<^verbatim>\<open>data["rates"]["RUB"] = v\<close>. The inner dictionary is changed in place; here the changed
  dictionary is put back under the key it came from.
\<close>

definition set_rub :: "json \<Rightarrow> rat \<Rightarrow> pyerr + json" where
  "set_rub data v =
     (case py_getitem data ''rates'' of
        Inl e \<Rightarrow> Inl e
      | Inr rates \<Rightarrow>
          (case py_setitem rates ''RUB'' (JNum v) of
             Inl e \<Rightarrow> Inl e
           | Inr rates' \<Rightarrow> py_setitem data ''rates'' rates'))"

text \<open>\<^verbatim>\<open>rub_data[code]\<close> on the dictionary returned by the feed.\<close>

definition patch_value :: "(string \<times> rat) list \<Rightarrow> string \<Rightarrow> pyerr + rat" where
  "patch_value rub_data code =
     (case map_of rub_data code of None \<Rightarrow> Inl KeyError | Some v \<Rightarrow> Inr v)"

text \<open>Lines 31 to 35: the \<^verbatim>\<open>if rub_data:\<close> block.\<close>

definition apply_rub_patch :: "string \<Rightarrow> json \<Rightarrow> (string \<times> rat) list option \<Rightarrow> pyerr + json" where
  "apply_rub_patch base_currency data rub_data =
     (case rub_data of
        None \<Rightarrow> Inr data
      | Some patch \<Rightarrow>
          if patch = [] then Inr data
          else if upper base_currency = ''USD'' \<and> ''USD'' \<in> fst ` set patch then
            (case patch_value patch ''USD'' of Inl e \<Rightarrow> Inl e | Inr v \<Rightarrow> set_rub data v)
          else if upper base_currency = ''EUR'' \<and> ''EUR'' \<in> fst ` set patch then
            (case patch_value patch ''EUR'' of Inl e \<Rightarrow> Inl e | Inr v \<Rightarrow> set_rub data v)
          else Inr data)"

text \<open>Lines 37 to 40: both dictionaries are written, then the table is returned.\<close>

definition store_rates :: "env \<Rightarrow> string \<Rightarrow> json \<Rightarrow> converter \<Rightarrow> (pyerr + json) \<times> converter" where
  "store_rates env base_currency data self =
     (Inr data,
      self\<lparr>cache := AList.update base_currency data (cache self),
           cache_timestamps := AList.update base_currency (now_store env) (cache_timestamps self)\<rparr>)"

text \<open>Lines 29 to 40, for a body that has parsed.\<close>

definition reconcile_and_store :: "env \<Rightarrow> string \<Rightarrow> json \<Rightarrow> converter \<Rightarrow> (pyerr + json) \<times> converter" where
  "reconcile_and_store env base_currency data self =
     (case has_rub_rate data of
        Inl e \<Rightarrow> (Inl e, self)
      | Inr rub \<Rightarrow>
          if rub then
            (case get_rub_rate_from_cbr env self of
               (rub_data, self') \<Rightarrow>
                 (case apply_rub_patch base_currency data rub_data of
                    Inl e \<Rightarrow> (Inl e, self')
                  | Inr data' \<Rightarrow> store_rates env base_currency data' self'))
          else store_rates env base_currency data self)"

text \<open>
  Lines 23 to 47: the request to the rates API. The two \<^verbatim>\<open>except\<close> clauses turn a failed
  request and an unparseable body into \<^verbatim>\<open>None\<close>; any other exception leaves the method.
  The messages the clauses print are not part of the model.
\<close>

definition fetch_rates :: "env \<Rightarrow> string \<Rightarrow> converter \<Rightarrow> (pyerr + json) \<times> converter" where
  "fetch_rates env base_currency self =
     (case self\<lparr>http_log := http_log self @ [RatesGet (api_url self @ ''/'' @ base_currency)]\<rparr> of
        self' \<Rightarrow>
          (case source_a env of
             ConnectionFailed \<Rightarrow> (Inr JNull, self')
           | BadStatus \<Rightarrow> (Inr JNull, self')
           | InvalidJson \<Rightarrow> (Inr JNull, self')
           | Body data \<Rightarrow> reconcile_and_store env base_currency data self'))"

definition get_exchange_rates :: "env \<Rightarrow> string \<Rightarrow> bool \<Rightarrow> converter \<Rightarrow> (pyerr + json) \<times> converter" where
  "get_exchange_rates env base_currency force_update self =
     (case cached_fresh env base_currency force_update self of
        Some data \<Rightarrow> (Inr data, self)
      | None \<Rightarrow> fetch_rates env base_currency self)"

definition clear_cache :: "converter \<Rightarrow> converter" where
  "clear_cache self = self\<lparr>cache := [], cache_timestamps := []\<rparr>"

subsection \<open>The operations built on a table\<close>

text \<open>
  The lines shared by \<^verbatim>\<open>convert\<close>, \<^verbatim>\<open>get_rate\<close> and \<^verbatim>\<open>get_available_currencies\<close>:
  \<^verbatim>\<open>if not rates_data or 'rates' not in rates_data\<close> gives up (\<open>None\<close> here), otherwise
  \<^verbatim>\<open>rates_data['rates']\<close> is read.
\<close>

definition rates_of :: "json \<Rightarrow> pyerr + json option" where
  "rates_of rates_data =
     (if truthy rates_data then
        (case py_in ''rates'' rates_data of
           Inl e \<Rightarrow> Inl e
         | Inr present \<Rightarrow>
             if present then
               (case py_getitem rates_data ''rates'' of
                  Inl e \<Rightarrow> Inl e
                | Inr rates \<Rightarrow> Inr (Some rates))
             else Inr None)
      else Inr None)"

text \<open>
  The lines shared by \<^verbatim>\<open>convert\<close> and \<^verbatim>\<open>get_rate\<close> up to the read of
  \<^verbatim>\<open>rates[to_currency.upper()]\<close>; \<open>None\<close> where the method returns \<^verbatim>\<open>None\<close>.
\<close>

definition lookup_rate :: "json \<Rightarrow> string \<Rightarrow> pyerr + json option" where
  "lookup_rate rates_data code =
     (case rates_of rates_data of
        Inl e \<Rightarrow> Inl e
      | Inr None \<Rightarrow> Inr None
      | Inr (Some rates) \<Rightarrow>
          (case py_in code rates of
             Inl e \<Rightarrow> Inl e
           | Inr present \<Rightarrow>
               if present then
                 (case py_getitem rates code of Inl e \<Rightarrow> Inl e | Inr v \<Rightarrow> Inr (Some v))
               else Inr None))"

text \<open>\<^verbatim>\<open>if "RUB" in [from_currency.upper(), to_currency.upper()]: force_update = True\<close>.\<close>

definition rub_forces :: "string \<Rightarrow> string \<Rightarrow> bool \<Rightarrow> bool" where
  "rub_forces from_currency to_currency force_update =
     (if ''RUB'' \<in> set [upper from_currency, upper to_currency] then True else force_update)"

definition convert ::
  "env \<Rightarrow> rat \<Rightarrow> string \<Rightarrow> string \<Rightarrow> bool \<Rightarrow> converter \<Rightarrow> (pyerr + rat option) \<times> converter" where
  "convert env amount from_currency to_currency force_update self =
     (if upper from_currency = upper to_currency then (Inr (Some amount), self)
      else
        (case get_exchange_rates env (upper from_currency)
                (rub_forces from_currency to_currency force_update) self of
           (Inl e, self') \<Rightarrow> (Inl e, self')
         | (Inr rates_data, self') \<Rightarrow>
             (case lookup_rate rates_data (upper to_currency) of
                Inl e \<Rightarrow> (Inl e, self')
              | Inr None \<Rightarrow> (Inr None, self')
              | Inr (Some exchange_rate) \<Rightarrow>
                  (case py_mul amount exchange_rate of
                     Inl e \<Rightarrow> (Inl e, self')
                   | Inr converted_amount \<Rightarrow> (Inr (Some converted_amount), self')))))"

definition get_available_currencies ::
  "env \<Rightarrow> string \<Rightarrow> converter \<Rightarrow> (pyerr + string list) \<times> converter" where
  "get_available_currencies env base_currency self =
     (case get_exchange_rates env (upper base_currency) False self of
        (Inl e, self') \<Rightarrow> (Inl e, self')
      | (Inr rates_data, self') \<Rightarrow>
          (case rates_of rates_data of
             Inl e \<Rightarrow> (Inl e, self')
           | Inr None \<Rightarrow> (Inr [], self')
           | Inr (Some rates) \<Rightarrow>
               (case py_keys rates of
                  Inl e \<Rightarrow> (Inl e, self')
                | Inr currencies \<Rightarrow> (Inr (sort (currencies @ [upper base_currency])), self'))))"

text \<open>\<^verbatim>\<open>get_rate\<close> returns \<^verbatim>\<open>1.0\<close>, \<^verbatim>\<open>None\<close> or the entry of the table as it is.\<close>

definition get_rate ::
  "env \<Rightarrow> string \<Rightarrow> string \<Rightarrow> bool \<Rightarrow> converter \<Rightarrow> (pyerr + json) \<times> converter" where
  "get_rate env from_currency to_currency force_update self =
     (if upper from_currency = upper to_currency then (Inr (JNum 1), self)
      else
        (case get_exchange_rates env (upper from_currency)
                (rub_forces from_currency to_currency force_update) self of
           (Inl e, self') \<Rightarrow> (Inl e, self')
         | (Inr rates_data, self') \<Rightarrow>
             (case lookup_rate rates_data (upper to_currency) of
                Inl e \<Rightarrow> (Inl e, self')
              | Inr None \<Rightarrow> (Inr JNull, self')
              | Inr (Some v) \<Rightarrow> (Inr v, self'))))"

subsection \<open>Sequences of calls\<close>

text \<open>
  A caller uses one converter for many calls, each in its own state of the world. An
  exception leaves the call but not the object, so the next call sees the state reached.
\<close>

datatype call =
    GetExchangeRates string bool
  | ClearCache
  | Convert rat string string bool
  | GetAvailableCurrencies string
  | GetRate string string bool

fun step :: "env \<Rightarrow> call \<Rightarrow> converter \<Rightarrow> converter" where
  "step env (GetExchangeRates b f) self = snd (get_exchange_rates env b f self)"
| "step env ClearCache self = clear_cache self"
| "step env (Convert a c d f) self = snd (convert env a c d f self)"
| "step env (GetAvailableCurrencies b) self = snd (get_available_currencies env b self)"
| "step env (GetRate c d f) self = snd (get_rate env c d f self)"

fun run :: "(env \<times> call) list \<Rightarrow> converter \<Rightarrow> converter" where
  "run [] self = self"
| "run ((env, c) # cs) self = run cs (step env c self)"

subsection \<open>Sample data\<close>

text \<open>
  The table of the rates API for base USD, the feed of the national bank quoting ten
  dollars at 915 roubles, and a converter holding that table since time 0.
\<close>

definition usd_table :: json where
  "usd_table = JObj [(''rates'', JObj [(''EUR'', JNum (9 / 10)), (''RUB'', JNum 95)])]"

definition cbr_feed :: json where
  "cbr_feed =
     JObj [(''Valute'', JObj [(''USD'', JObj [(''Value'', JNum 915), (''Nominal'', JNum 10)])])]"

definition api :: string where
  "api = ''https://api.exchangerate-api.com/v4/latest''"

definition holding_usd :: converter where
  "holding_usd = (init_converter api)\<lparr>cache := [(''USD'', usd_table)], cache_timestamps := [(''USD'', 0)]\<rparr>"

definition both_up :: "int \<Rightarrow> env" where
  "both_up t = \<lparr>source_a = Body usd_table, source_b = Body cbr_feed, now_check = t, now_store = t\<rparr>"

definition both_down :: "int \<Rightarrow> env" where
  "both_down t = \<lparr>source_a = ConnectionFailed, source_b = ConnectionFailed, now_check = t, now_store = t\<rparr>"

text \<open>The rates API answers while the feed of the national bank cannot be reached.\<close>

definition feed_down :: "int \<Rightarrow> env" where
  "feed_down t = \<lparr>source_a = Body usd_table, source_b = ConnectionFailed, now_check = t, now_store = t\<rparr>"

text \<open>
  Three more answers of the rates API: a table without a rouble rate, a table that lists
  its own base currency (as the public API does), and a body that parses but has no
  \<open>rates\<close>.
\<close>

definition eur_only_table :: json where
  "eur_only_table = JObj [(''rates'', JObj [(''EUR'', JNum (9 / 10))])]"

definition usd_self_table :: json where
  "usd_self_table = JObj [(''rates'', JObj [(''USD'', JNum 1), (''EUR'', JNum (9 / 10))])]"

definition error_body :: json where
  "error_body = JObj [(''result'', JStr ''error''), (''error-type'', JStr ''unsupported-code'')]"

definition answering :: "json \<Rightarrow> int \<Rightarrow> env" where
  "answering body t = \<lparr>source_a = Body body, source_b = Body cbr_feed, now_check = t, now_store = t\<rparr>"

text \<open>
  The calls whose method upper-cases its currency codes before it touches the cache
  (lines 86, 104 and 121); \<open>get_exchange_rates\<close> uses its argument as it is
  (lines 17 to 23, 37 and 38), and \<open>clear_cache\<close> takes no code.
\<close>

fun upper_cases_codes :: "call \<Rightarrow> bool" where
  "upper_cases_codes (GetExchangeRates b f) = False"
| "upper_cases_codes ClearCache = True"
| "upper_cases_codes (Convert a c d f) = True"
| "upper_cases_codes (GetAvailableCurrencies b) = True"
| "upper_cases_codes (GetRate c d f) = True"

text \<open>
  A session: a conversion from dollars, the cache cleared, a list of currencies for the
  euro while the network is down, the same list once it is back, and a rate from dollars.
\<close>

definition sample_calls :: "(env \<times> call) list" where
  "sample_calls =
     [(both_up 0, Convert 100 ''usd'' ''eur'' False),
      (both_up 1, ClearCache),
      (both_down 2, GetAvailableCurrencies ''eur''),
      (both_up 3, GetAvailableCurrencies ''eur''),
      (both_up 4, GetRate ''USD'' ''rub'' False)]"

lemmas sample_defs =
  sample_calls_def both_up_def both_down_def feed_down_def answering_def
  eur_only_table_def usd_self_table_def error_body_def holding_usd_def init_converter_def usd_table_def
  cbr_feed_def api_def cbr_url_def
  upper_def upper_char_def rub_forces_def
  convert_def get_rate_def get_available_currencies_def clear_cache_def
  get_exchange_rates_def cached_fresh_def fetch_rates_def reconcile_and_store_def
  store_rates_def has_rub_rate_def get_rub_rate_from_cbr_def cbr_try_def cbr_rates_def
  cbr_add_rate_def cbr_unit_rate_def py_truediv_def py_mul_def apply_rub_patch_def
  patch_value_def set_rub_def rates_of_def lookup_rate_def

section \<open>Facts about the model\<close>

text \<open>
  Upper-casing twice is upper-casing once; the feed only adds to the trace; a call of
  \<open>get_exchange_rates\<close> either leaves both dictionaries alone or writes the same key into
  both; the three operations on top of it change the converter only through it.
\<close>

lemma upper_char_idem: "upper_char (upper_char c) = upper_char c"
  by (simp add: upper_char_def)

lemma upper_idem: "upper (upper s) = upper s"
  by (simp add: upper_def upper_char_idem)

lemma get_rub_rate_from_cbr_state:
  "snd (get_rub_rate_from_cbr env self) = self\<lparr>http_log := http_log self @ [CbrGet cbr_url]\<rparr>"
  by (simp add: get_rub_rate_from_cbr_def)

lemma reconcile_and_store_effect:
  assumes "reconcile_and_store env b data self = (r, s')"
  shows "(cache s' = cache self \<and> cache_timestamps s' = cache_timestamps self)
       \<or> (\<exists>d. r = Inr d \<and> cache s' = AList.update b d (cache self)
              \<and> cache_timestamps s' = AList.update b (now_store env) (cache_timestamps self))"
  using assms
  by (auto simp add: reconcile_and_store_def get_rub_rate_from_cbr_def store_rates_def
      split: sum.splits if_splits)

lemma get_exchange_rates_effect:
  assumes "get_exchange_rates env b f self = (r, s')"
  shows "(cache s' = cache self \<and> cache_timestamps s' = cache_timestamps self)
       \<or> (\<exists>d. r = Inr d \<and> cache s' = AList.update b d (cache self)
              \<and> cache_timestamps s' = AList.update b (now_store env) (cache_timestamps self))"
proof (cases "cached_fresh env b f self")
  case (Some d)
  with assms show ?thesis by (simp add: get_exchange_rates_def)
next
  case None
  show ?thesis
  proof (cases "source_a env")
    case (Body data)
    with None assms
    have "reconcile_and_store env b data
            (self\<lparr>http_log := http_log self @ [RatesGet (api_url self @ ''/'' @ b)]\<rparr>) = (r, s')"
      by (simp add: get_exchange_rates_def fetch_rates_def)
    from reconcile_and_store_effect [OF this] show ?thesis by simp
  qed (use None assms in \<open>auto simp add: get_exchange_rates_def fetch_rates_def\<close>)
qed

lemma convert_state:
  "snd (convert env a c d f self) =
     (if upper c = upper d then self
      else snd (get_exchange_rates env (upper c) (rub_forces c d f) self))"
  by (simp add: convert_def split: prod.splits sum.splits option.splits)

lemma get_rate_state:
  "snd (get_rate env c d f self) =
     (if upper c = upper d then self
      else snd (get_exchange_rates env (upper c) (rub_forces c d f) self))"
  by (simp add: get_rate_def split: prod.splits sum.splits option.splits)

lemma get_available_currencies_state:
  "snd (get_available_currencies env b self) = snd (get_exchange_rates env (upper b) False self)"
  by (simp add: get_available_currencies_def split: prod.splits sum.splits option.splits)

lemma keys_update_aligned:
  "map fst al = map fst bl \<Longrightarrow> map fst (AList.update k v al) = map fst (AList.update k w bl)"
  by (simp add: update_keys)

lemma get_exchange_rates_aligned:
  assumes "map fst (cache self) = map fst (cache_timestamps self)"
  shows "map fst (cache (snd (get_exchange_rates env b f self))) =
         map fst (cache_timestamps (snd (get_exchange_rates env b f self)))"
proof -
  obtain r s' where eq: "get_exchange_rates env b f self = (r, s')"
    by (cases "get_exchange_rates env b f self")
  from get_exchange_rates_effect [OF eq] assms show ?thesis
    by (auto simp add: eq keys_update_aligned)
qed

lemma step_aligned:
  "map fst (cache self) = map fst (cache_timestamps self) \<Longrightarrow>
   map fst (cache (step env c self)) = map fst (cache_timestamps (step env c self))"
  by (cases c)
     (simp_all add: clear_cache_def convert_state get_rate_state get_available_currencies_state
        get_exchange_rates_aligned)

lemma run_aligned:
  "map fst (cache self) = map fst (cache_timestamps self) \<Longrightarrow>
   map fst (cache (run cs self)) = map fst (cache_timestamps (run cs self))"
proof (induction cs arbitrary: self)
  case Nil
  then show ?case by simp
next
  case (Cons x cs)
  obtain env c where x: "x = (env, c)" by (cases x)
  from Cons.prems have "map fst (cache (step env c self)) = map fst (cache_timestamps (step env c self))"
    by (rule step_aligned)
  from Cons.IH [OF this] show ?case by (simp add: x)
qed

lemma map_of_Some_key: "map_of al k = Some v \<Longrightarrow> k \<in> fst ` set al"
  by (metis map_of_eq_None_iff option.distinct(1))

lemma has_rub_rate_table:
  assumes "map_of table ''rates'' = Some (JObj rates)"
  shows "has_rub_rate (JObj table) = Inr (''RUB'' \<in> fst ` set rates)"
proof -
  from assms have "''rates'' \<in> fst ` set table" by (rule map_of_Some_key)
  moreover from assms have "table \<noteq> []" by auto
  ultimately show ?thesis using assms by (simp add: has_rub_rate_def)
qed

lemma set_rub_table:
  assumes "map_of table ''rates'' = Some (JObj rates)"
  shows "set_rub (JObj table) v =
           Inr (JObj (AList.update ''rates'' (JObj (AList.update ''RUB'' (JNum v) rates)) table))"
  using assms by (simp add: set_rub_def)

lemma apply_rub_patch_tracked:
  assumes "upper b = ''USD'' \<or> upper b = ''EUR''"
    and "map_of patch (upper b) = Some v"
  shows "apply_rub_patch b data (Some patch) = set_rub data v"
proof -
  from assms(2) have k: "upper b \<in> fst ` set patch" by (rule map_of_Some_key)
  then have ne: "patch \<noteq> []" by auto
  from assms(1) show ?thesis
  proof
    assume u: "upper b = ''USD''"
    with k have "''USD'' \<in> fst ` set patch" by simp
    with u ne assms(2) show ?thesis
      by (simp add: apply_rub_patch_def patch_value_def)
  next
    assume u: "upper b = ''EUR''"
    with k have "''EUR'' \<in> fst ` set patch" by simp
    with u ne assms(2) show ?thesis
      by (simp add: apply_rub_patch_def patch_value_def)
  qed
qed

text \<open>
  The value the feed contributes for a currency is \<open>Value\<close> divided by \<open>Nominal\<close>; a feed
  entry without \<open>Value\<close>, or with a \<open>Nominal\<close> of zero, makes the whole attempt fail.
\<close>

lemma cbr_unit_rate_per_unit:
  assumes "map_of valute code = Some (JObj entry)"
    and "map_of entry ''Value'' = Some (JNum val)"
    and "map_of entry ''Nominal'' = Some (JNum nominal)"
    and "nominal \<noteq> 0"
  shows "cbr_unit_rate (JObj valute) code = Inr (val / nominal)"
  using assms by (simp add: cbr_unit_rate_def py_truediv_def)

lemma cbr_try_missing_value:
  "cbr_try (Body (JObj [(''Valute'', JObj [(''USD'', JObj [(''Nominal'', JNum 10)])])])) =
     Inl (Raised KeyError)"
  by (simp add: cbr_try_def cbr_rates_def cbr_add_rate_def cbr_unit_rate_def)

lemma cbr_try_zero_nominal:
  "cbr_try (Body (JObj [(''Valute'',
      JObj [(''EUR'', JObj [(''Value'', JNum 99), (''Nominal'', JNum 0)])])])) =
     Inl (Raised ZeroDivisionError)"
  by (simp add: cbr_try_def cbr_rates_def cbr_add_rate_def cbr_unit_rate_def py_truediv_def)

lemma cbr_try_no_valute:
  "cbr_try (Body (JObj [(''Date'', JStr ''2024-01-01'')])) = Inr None"
  by (simp add: cbr_try_def cbr_rates_def)

lemma rub_forces_True:
  "upper c = ''RUB'' \<or> upper d = ''RUB'' \<Longrightarrow> rub_forces c d f = True"
  by (auto simp add: rub_forces_def)

lemma cached_fresh_forced: "cached_fresh env b True self = None"
  by (simp add: cached_fresh_def)

lemma fetch_rates_log:
  "http_log (snd (fetch_rates env b self)) =
     http_log self @ RatesGet (api_url self @ ''/'' @ b) #
       (case source_a env of
          Body data \<Rightarrow> if has_rub_rate data = Inr True then [CbrGet cbr_url] else []
        | _ \<Rightarrow> [])"
  by (simp add: fetch_rates_def reconcile_and_store_def store_rates_def get_rub_rate_from_cbr_def
      split: response.splits sum.splits)

lemma rates_of_table:
  assumes "map_of table ''rates'' = Some rates"
  shows "rates_of (JObj table) = Inr (Some rates)"
proof -
  from assms have "''rates'' \<in> fst ` set table" by (rule map_of_Some_key)
  moreover from assms have "table \<noteq> []" by auto
  ultimately show ?thesis using assms by (simp add: rates_of_def)
qed

lemma rates_of_no_rates:
  "''rates'' \<notin> fst ` set members \<Longrightarrow> rates_of (JObj members) = Inr None"
  by (simp add: rates_of_def)

lemma rub_forces_upper: "rub_forces (upper c) (upper d) f = rub_forces c d f"
  by (simp add: rub_forces_def upper_idem)

lemma get_exchange_rates_keys:
  assumes "upper b = b"
    and "\<forall>k \<in> fst ` set (cache self). upper k = k"
    and "distinct (map fst (cache self))"
  shows "(\<forall>k \<in> fst ` set (cache (snd (get_exchange_rates env b f self))). upper k = k)
       \<and> distinct (map fst (cache (snd (get_exchange_rates env b f self))))"
proof -
  obtain r s' where eq: "get_exchange_rates env b f self = (r, s')"
    by (cases "get_exchange_rates env b f self")
  from get_exchange_rates_effect [OF eq]
  have "cache s' = cache self \<or> (\<exists>d. cache s' = AList.update b d (cache self))"
    by blast
  then show ?thesis
  proof
    assume "cache s' = cache self"
    with assms(2,3) show ?thesis by (simp add: eq)
  next
    assume "\<exists>d. cache s' = AList.update b d (cache self)"
    then obtain d where d: "cache s' = AList.update b d (cache self)" ..
    have "fst ` set (cache s') = {b} \<union> fst ` set (cache self)"
      by (simp only: d dom_update)
    moreover have "distinct (map fst (cache s'))"
      using assms(3) by (simp only: d distinct_update)
    ultimately show ?thesis using assms(1,2) by (simp add: eq)
  qed
qed

lemma step_keys:
  assumes "upper_cases_codes c"
    and "\<forall>k \<in> fst ` set (cache self). upper k = k"
    and "distinct (map fst (cache self))"
  shows "(\<forall>k \<in> fst ` set (cache (step env c self)). upper k = k)
       \<and> distinct (map fst (cache (step env c self)))"
proof (cases c)
  case (GetExchangeRates b f)
  with assms(1) show ?thesis by simp
next
  case ClearCache
  then show ?thesis by (simp add: clear_cache_def)
next
  case (Convert a x y f)
  from get_exchange_rates_keys [OF upper_idem assms(2,3)] assms(2,3) Convert
  show ?thesis by (simp add: convert_state)
next
  case (GetAvailableCurrencies b)
  from get_exchange_rates_keys [OF upper_idem assms(2,3)] GetAvailableCurrencies
  show ?thesis by (simp add: get_available_currencies_state)
next
  case (GetRate x y f)
  from get_exchange_rates_keys [OF upper_idem assms(2,3)] assms(2,3) GetRate
  show ?thesis by (simp add: get_rate_state)
qed

lemma run_keys:
  assumes "list_all (\<lambda>(env, c). upper_cases_codes c) cs"
    and "\<forall>k \<in> fst ` set (cache self). upper k = k"
    and "distinct (map fst (cache self))"
  shows "(\<forall>k \<in> fst ` set (cache (run cs self)). upper k = k)
       \<and> distinct (map fst (cache (run cs self)))"
  using assms
proof (induction cs arbitrary: self)
  case Nil
  then show ?case by simp
next
  case (Cons x cs)
  obtain env c where x: "x = (env, c)" by (cases x)
  from Cons.prems(1) x have c: "upper_cases_codes c" and rest: "list_all (\<lambda>(env, c). upper_cases_codes c) cs"
    by simp_all
  from step_keys [OF c Cons.prems(2,3), of env]
  have "\<forall>k \<in> fst ` set (cache (step env c self)). upper k = k"
    and "distinct (map fst (cache (step env c self)))"
    by blast+
  from Cons.IH [OF rest this] show ?case by (simp add: x)
qed

section \<open>Same-currency requests\<close>

text \<open>
  Claim C8. When the two codes agree after upper-casing, whatever they are, \<open>convert\<close>
  returns the amount it was given and \<open>get_rate\<close> returns 1; neither reads or writes the
  cache, neither issues a request: the converter, with its request trace, is as before.
\<close>

theorem same_currency_short_circuit:
  assumes "upper from_currency = upper to_currency"
  shows "convert env amount from_currency to_currency force_update self = (Inr (Some amount), self)
       \<and> get_rate env from_currency to_currency force_update self = (Inr (JNum 1), self)"
  using assms by (simp add: convert_def get_rate_def)

theorem same_currency_short_circuit_witness:
  "upper ''zzz'' = upper ''ZzZ''
   \<and> convert (both_down 7) 42 ''zzz'' ''ZzZ'' True holding_usd = (Inr (Some 42), holding_usd)
   \<and> get_rate (both_down 7) ''zzz'' ''ZzZ'' True holding_usd = (Inr (JNum 1), holding_usd)"
proof -
  have same: "upper ''zzz'' = upper ''ZzZ''"
    by (simp add: upper_def upper_char_def)
  from same_currency_short_circuit [OF same, of "both_down 7" 42 True holding_usd] same
  show ?thesis by simp
qed

section \<open>Answering from the cache\<close>

text \<open>
  Claim C4. When the cache holds a table for the base currency whose age, read at the
  moment of the call, is below the five minutes of \<open>cache_duration\<close>, an unforced
  \<open>get_exchange_rates\<close> returns that very table and leaves the converter as it was: the
  cache, the time stamps and the trace of requests are unchanged, so neither source is called.
\<close>

theorem fresh_entry_served_without_request:
  assumes "map_of (cache self) base_currency = Some data"
    and "map_of (cache_timestamps self) base_currency = Some stamp"
    and "cache_duration self = 5 * 60 * 1000000"
    and "now_check env - stamp < 5 * 60 * 1000000"
  shows "get_exchange_rates env base_currency False self = (Inr data, self)
       \<and> http_log (snd (get_exchange_rates env base_currency False self)) = http_log self"
  using assms by (simp add: get_exchange_rates_def cached_fresh_def)

theorem fresh_entry_served_without_request_witness:
  "map_of (cache holding_usd) ''USD'' = Some usd_table
   \<and> map_of (cache_timestamps holding_usd) ''USD'' = Some 0
   \<and> cache_duration holding_usd = 5 * 60 * 1000000
   \<and> 299999999 - 0 < (5 * 60 * 1000000 :: int)
   \<and> get_exchange_rates (both_down 299999999) ''USD'' False holding_usd = (Inr usd_table, holding_usd)
   \<and> http_log (snd (get_exchange_rates (both_down 299999999) ''USD'' False holding_usd)) = []"
proof -
  have c: "map_of (cache holding_usd) ''USD'' = Some usd_table"
    and t: "map_of (cache_timestamps holding_usd) ''USD'' = Some 0"
    and d: "cache_duration holding_usd = 5 * 60 * 1000000"
    and l: "http_log holding_usd = []"
    by (simp_all add: holding_usd_def init_converter_def)
  have a: "now_check (both_down 299999999) - 0 < 5 * 60 * 1000000"
    by (simp add: both_down_def)
  from fresh_entry_served_without_request [OF c t d a] c t d l
  show ?thesis by simp
qed

section \<open>Failure of the rates API\<close>

text \<open>
  Claim C7. When the call is not answered from the cache and the request to the rates API
  fails (the request raises, the status is an error, or the body is not JSON),
  \<open>get_exchange_rates\<close> returns \<^verbatim>\<open>None\<close> at once: the only effect is the request itself.
  The cache and the time stamps, stale entries included, are exactly as before, and the
  national-bank feed is not asked.
\<close>

theorem source_a_failure_leaves_cache:
  assumes "cached_fresh env base_currency force_update self = None"
    and "source_a env = ConnectionFailed \<or> source_a env = BadStatus \<or> source_a env = InvalidJson"
  shows "get_exchange_rates env base_currency force_update self =
           (Inr JNull, self\<lparr>http_log := http_log self @ [RatesGet (api_url self @ ''/'' @ base_currency)]\<rparr>)
       \<and> cache (snd (get_exchange_rates env base_currency force_update self)) = cache self
       \<and> cache_timestamps (snd (get_exchange_rates env base_currency force_update self)) =
           cache_timestamps self"
  using assms by (auto simp add: get_exchange_rates_def fetch_rates_def)

theorem source_a_failure_leaves_cache_witness:
  "cached_fresh (both_down 300000000) ''USD'' False holding_usd = None
   \<and> source_a (both_down 300000000) = ConnectionFailed
   \<and> fst (get_exchange_rates (both_down 300000000) ''USD'' False holding_usd) = Inr JNull
   \<and> cache (snd (get_exchange_rates (both_down 300000000) ''USD'' False holding_usd)) =
       [(''USD'', usd_table)]
   \<and> cache_timestamps (snd (get_exchange_rates (both_down 300000000) ''USD'' False holding_usd)) =
       [(''USD'', 0)]"
proof -
  have stale: "cached_fresh (both_down 300000000) ''USD'' False holding_usd = None"
    by (simp add: cached_fresh_def both_down_def holding_usd_def init_converter_def)
  have down: "source_a (both_down 300000000) = ConnectionFailed"
    by (simp add: both_down_def)
  have c: "cache holding_usd = [(''USD'', usd_table)]"
    and t: "cache_timestamps holding_usd = [(''USD'', 0)]"
    by (simp_all add: holding_usd_def)
  from source_a_failure_leaves_cache [OF stale disjI1, OF down] stale down c t
  show ?thesis by simp
qed

section \<open>The two dictionaries of the cache\<close>

text \<open>
  Claim C10. After any sequence of calls on a new converter (\<open>get_exchange_rates\<close>,
  \<open>clear_cache\<close>, \<open>convert\<close>, \<open>get_available_currencies\<close>, \<open>get_rate\<close>, each in a state
  of the world of its own, whether it returns or raises), \<open>cache\<close> and \<open>cache_timestamps\<close>
  have the same set of keys; they even list them in the same order.
\<close>

theorem cache_and_timestamps_same_keys:
  "fst ` set (cache (run cs (init_converter url))) =
     fst ` set (cache_timestamps (run cs (init_converter url)))
   \<and> map fst (cache (run cs (init_converter url))) =
     map fst (cache_timestamps (run cs (init_converter url)))"
proof -
  have "map fst (cache (init_converter url)) = map fst (cache_timestamps (init_converter url))"
    by (simp add: init_converter_def)
  from run_aligned [OF this, of cs]
  have keys: "map fst (cache (run cs (init_converter url))) =
        map fst (cache_timestamps (run cs (init_converter url)))" .
  from arg_cong [OF keys, of set]
  have sets: "fst ` set (cache (run cs (init_converter url))) =
        fst ` set (cache_timestamps (run cs (init_converter url)))"
    by simp
  show ?thesis by (intro conjI sets keys)
qed

theorem cache_and_timestamps_same_keys_witness:
  "map fst (cache (run sample_calls (init_converter api))) = [''EUR'', ''USD'']
   \<and> map fst (cache_timestamps (run sample_calls (init_converter api))) = [''EUR'', ''USD'']"
proof -
  have "map fst (cache (run sample_calls (init_converter api))) = [''EUR'', ''USD'']"
    by (simp add: sample_defs)
  with cache_and_timestamps_same_keys [of sample_calls api] show ?thesis by simp
qed

section \<open>Reconciling the rouble rate\<close>

text \<open>
  Claim C5. Let the call reach the rates API, let the base currency be USD or EUR (in any
  letter case), let the API answer with a table whose \<open>rates\<close> hold a RUB entry, and let
  the feed of the national bank succeed with a value for the base currency. Then the table
  returned is the API's table with the RUB rate replaced by the feed's value, every other
  rate and the order of the keys being as the API gave them; this table is stored in the
  cache under the base currency, with the time of storing. The witness is the example of
  the specification: rates EUR 0.9 and RUB 95 for base USD, the feed quoting ten dollars at
  915 roubles, that is 91.5 per dollar.
\<close>

theorem rub_rate_patched_from_cbr:
  assumes "cached_fresh env base_currency force_update self = None"
    and "upper base_currency = ''USD'' \<or> upper base_currency = ''EUR''"
    and "source_a env = Body (JObj table)"
    and "map_of table ''rates'' = Some (JObj rates)"
    and "''RUB'' \<in> fst ` set rates"
    and "cbr_try (source_b env) = Inr (Some patch)"
    and "map_of patch (upper base_currency) = Some v"
  shows "get_exchange_rates env base_currency force_update self =
           (Inr (JObj (AList.update ''rates'' (JObj (AList.update ''RUB'' (JNum v) rates)) table)),
            self\<lparr>http_log := http_log self @
                    [RatesGet (api_url self @ ''/'' @ base_currency), CbrGet cbr_url],
                  cache := AList.update base_currency
                    (JObj (AList.update ''rates'' (JObj (AList.update ''RUB'' (JNum v) rates)) table))
                    (cache self),
                  cache_timestamps :=
                    AList.update base_currency (now_store env) (cache_timestamps self)\<rparr>)
       \<and> map_of (AList.update ''RUB'' (JNum v) rates) ''RUB'' = Some (JNum v)
       \<and> (\<forall>code. code \<noteq> ''RUB'' \<longrightarrow>
             map_of (AList.update ''RUB'' (JNum v) rates) code = map_of rates code)
       \<and> map fst (AList.update ''RUB'' (JNum v) rates) = map fst rates"
proof -
  have rub: "has_rub_rate (JObj table) = Inr True"
    using assms(4,5) by (simp add: has_rub_rate_table)
  have feed: "fst (get_rub_rate_from_cbr env s) = Some patch" for s
    using assms(6) by (simp add: get_rub_rate_from_cbr_def)
  have patched: "apply_rub_patch base_currency (JObj table) (Some patch) =
      Inr (JObj (AList.update ''rates'' (JObj (AList.update ''RUB'' (JNum v) rates)) table))"
    using assms(2,4,7) by (simp add: apply_rub_patch_tracked set_rub_table)
  have call: "get_exchange_rates env base_currency force_update self =
           (Inr (JObj (AList.update ''rates'' (JObj (AList.update ''RUB'' (JNum v) rates)) table)),
            self\<lparr>http_log := http_log self @
                    [RatesGet (api_url self @ ''/'' @ base_currency), CbrGet cbr_url],
                  cache := AList.update base_currency
                    (JObj (AList.update ''rates'' (JObj (AList.update ''RUB'' (JNum v) rates)) table))
                    (cache self),
                  cache_timestamps :=
                    AList.update base_currency (now_store env) (cache_timestamps self)\<rparr>)"
    using assms(1,3,6) rub patched
    by (simp add: get_exchange_rates_def fetch_rates_def reconcile_and_store_def
        get_rub_rate_from_cbr_def store_rates_def)
  have others: "\<forall>code. code \<noteq> ''RUB'' \<longrightarrow>
             map_of (AList.update ''RUB'' (JNum v) rates) code = map_of rates code"
    by (simp add: update_conv')
  have same: "map_of (AList.update ''RUB'' (JNum v) rates) ''RUB'' = Some (JNum v)"
    by (simp add: update_conv')
  have keys: "map fst (AList.update ''RUB'' (JNum v) rates) = map fst rates"
    using assms(5) by (simp add: update_keys)
  show ?thesis by (intro conjI call same others keys)
qed

theorem rub_rate_patched_from_cbr_witness:
  "get_exchange_rates (both_up 7) ''USD'' True holding_usd =
     (Inr (JObj [(''rates'', JObj [(''EUR'', JNum (9 / 10)), (''RUB'', JNum (183 / 2))])]),
      holding_usd\<lparr>http_log := [RatesGet (api @ ''/USD''), CbrGet cbr_url],
        cache := [(''USD'', JObj [(''rates'', JObj [(''EUR'', JNum (9 / 10)), (''RUB'', JNum (183 / 2))])])],
        cache_timestamps := [(''USD'', 7)]\<rparr>)"
proof -
  have 1: "cached_fresh (both_up 7) ''USD'' True holding_usd = None"
    by (simp add: cached_fresh_def)
  have 2: "upper ''USD'' = ''USD'' \<or> upper ''USD'' = ''EUR''"
    by (simp add: upper_def upper_char_def)
  have 3: "source_a (both_up 7) =
      Body (JObj [(''rates'', JObj [(''EUR'', JNum (9 / 10)), (''RUB'', JNum 95)])])"
    by (simp add: both_up_def usd_table_def)
  have 4: "map_of [(''rates'', JObj [(''EUR'', JNum (9 / 10)), (''RUB'', JNum 95)])] ''rates'' =
      Some (JObj [(''EUR'', JNum (9 / 10)), (''RUB'', JNum 95)])"
    by simp
  have 5: "''RUB'' \<in> fst ` set [(''EUR'', JNum (9 / 10)), (''RUB'', JNum 95)]"
    by simp
  have 6: "cbr_try (source_b (both_up 7)) = Inr (Some [(''USD'', 183 / 2)])"
    by (simp add: sample_defs)
  have 7: "map_of [(''USD'', 183 / 2 :: rat)] (upper ''USD'') = Some (183 / 2)"
    by (simp add: upper_def upper_char_def)
  from rub_rate_patched_from_cbr [OF 1 2 3 4 5 6 7]
  show ?thesis
    by (simp add: holding_usd_def init_converter_def both_up_def)
qed

section \<open>Failure of the national-bank feed\<close>

text \<open>
  Claim C6. Let the call reach the rates API and the API answer with a body on which the
  test for a RUB rate raises nothing (every table is such a body). If the attempt at the
  feed fails, by a failed request, by an exception on the parsed feed or by a feed without
  \<open>Valute\<close>, then \<open>_get_rub_rate_from_cbr\<close> returns \<^verbatim>\<open>None\<close> and \<open>get_exchange_rates\<close>
  does not fail: it returns the body of the API as it came and stores that body in the
  cache.
\<close>

theorem source_b_failure_keeps_table:
  assumes "cached_fresh env base_currency force_update self = None"
    and "source_a env = Body data"
    and "has_rub_rate data = Inr rub"
    and "cbr_try (source_b env) = Inl e \<or> cbr_try (source_b env) = Inr None"
  shows "fst (get_rub_rate_from_cbr env self) = None
       \<and> get_exchange_rates env base_currency force_update self =
           (Inr data,
            self\<lparr>http_log := http_log self @
                    RatesGet (api_url self @ ''/'' @ base_currency) #
                    (if rub then [CbrGet cbr_url] else []),
                  cache := AList.update base_currency data (cache self),
                  cache_timestamps :=
                    AList.update base_currency (now_store env) (cache_timestamps self)\<rparr>)"
proof -
  from assms(4) have none: "fst (get_rub_rate_from_cbr env s) = None" for s
    by (auto simp add: get_rub_rate_from_cbr_def)
  from assms(4) have keep: "apply_rub_patch base_currency data (fst (get_rub_rate_from_cbr env s)) = Inr data" for s
    by (simp add: none apply_rub_patch_def)
  show ?thesis
  proof (cases rub)
    case True
    with assms(1,2,3) keep none show ?thesis
      by (simp add: get_exchange_rates_def fetch_rates_def reconcile_and_store_def
          store_rates_def split_beta get_rub_rate_from_cbr_state)
  next
    case False
    with assms(1,2,3) none show ?thesis
      by (simp add: get_exchange_rates_def fetch_rates_def reconcile_and_store_def
          store_rates_def)
  qed
qed


theorem source_b_failure_keeps_table_witness:
  "get_exchange_rates (feed_down 9) ''USD'' True holding_usd =
     (Inr usd_table,
      holding_usd\<lparr>http_log := [RatesGet (api @ ''/USD''), CbrGet cbr_url],
        cache := [(''USD'', usd_table)], cache_timestamps := [(''USD'', 9)]\<rparr>)
   \<and> fst (get_rub_rate_from_cbr (feed_down 9) holding_usd) = None"
proof -
  have 1: "cached_fresh (feed_down 9) ''USD'' True holding_usd = None"
    by (simp add: cached_fresh_def)
  have 2: "source_a (feed_down 9) = Body usd_table"
    by (simp add: feed_down_def)
  have 3: "has_rub_rate usd_table = Inr True"
    by (simp add: has_rub_rate_def usd_table_def)
  have 4: "cbr_try (source_b (feed_down 9)) = Inl RequestFailed"
    by (simp add: cbr_try_def feed_down_def)
  from source_b_failure_keeps_table [OF 1 2 3 disjI1, OF 4]
  show ?thesis
    by (simp add: holding_usd_def init_converter_def feed_down_def)
qed

section \<open>Conversions that involve the rouble\<close>

text \<open>
  Claim C9, as the code has it. In a \<open>convert\<close> or \<open>get_rate\<close> call whose two codes
  differ after upper-casing and one of which is RUB, the flag \<open>force_update\<close> is replaced
  by true, so no entry of the cache is used, however fresh, and the rates API is asked for
  the upper-cased source currency in every such call. The feed of the national bank is
  asked after it exactly when the API has answered with a body whose \<open>rates\<close> contain RUB;
  when the API fails, or its table has no RUB entry, the feed is not asked.
\<close>

theorem rub_conversion_refetches:
  assumes "upper from_currency \<noteq> upper to_currency"
    and "upper from_currency = ''RUB'' \<or> upper to_currency = ''RUB''"
  shows "rub_forces from_currency to_currency force_update = True
       \<and> cached_fresh env (upper from_currency)
           (rub_forces from_currency to_currency force_update) self = None
       \<and> http_log (snd (convert env amount from_currency to_currency force_update self)) =
           http_log self @ RatesGet (api_url self @ ''/'' @ upper from_currency) #
             (case source_a env of
                Body data \<Rightarrow> if has_rub_rate data = Inr True then [CbrGet cbr_url] else []
              | _ \<Rightarrow> [])
       \<and> http_log (snd (get_rate env from_currency to_currency force_update self)) =
           http_log self @ RatesGet (api_url self @ ''/'' @ upper from_currency) #
             (case source_a env of
                Body data \<Rightarrow> if has_rub_rate data = Inr True then [CbrGet cbr_url] else []
              | _ \<Rightarrow> [])"
proof -
  from assms(2) have forced: "rub_forces from_currency to_currency force_update = True"
    by (rule rub_forces_True)
  have miss: "cached_fresh env (upper from_currency)
      (rub_forces from_currency to_currency force_update) self = None"
    by (simp add: forced cached_fresh_forced)
  have call: "get_exchange_rates env (upper from_currency)
      (rub_forces from_currency to_currency force_update) self =
      fetch_rates env (upper from_currency) self"
    by (simp add: get_exchange_rates_def miss)
  have c: "http_log (snd (convert env amount from_currency to_currency force_update self)) =
           http_log self @ RatesGet (api_url self @ ''/'' @ upper from_currency) #
             (case source_a env of
                Body data \<Rightarrow> if has_rub_rate data = Inr True then [CbrGet cbr_url] else []
              | _ \<Rightarrow> [])"
    using assms(1) by (simp add: convert_state call fetch_rates_log)
  have r: "http_log (snd (get_rate env from_currency to_currency force_update self)) =
           http_log self @ RatesGet (api_url self @ ''/'' @ upper from_currency) #
             (case source_a env of
                Body data \<Rightarrow> if has_rub_rate data = Inr True then [CbrGet cbr_url] else []
              | _ \<Rightarrow> [])"
    using assms(1) by (simp add: get_rate_state call fetch_rates_log)
  show ?thesis by (intro conjI forced miss c r)
qed

theorem rub_conversion_refetches_witness:
  "cached_fresh (both_up 5) ''USD'' False holding_usd = Some usd_table
   \<and> convert (both_up 5) 100 ''usd'' ''rub'' False holding_usd =
       (Inr (Some 9150),
        holding_usd\<lparr>http_log := [RatesGet (api @ ''/USD''), CbrGet cbr_url],
          cache := [(''USD'', JObj [(''rates'', JObj [(''EUR'', JNum (9 / 10)), (''RUB'', JNum (183 / 2))])])],
          cache_timestamps := [(''USD'', 5)]\<rparr>)
   \<and> http_log (snd (get_rate (both_up 5) ''usd'' ''rub'' False holding_usd)) =
       [RatesGet (api @ ''/USD''), CbrGet cbr_url]"
proof -
  have 1: "upper ''usd'' \<noteq> upper ''rub''"
    by (simp add: upper_def upper_char_def)
  have 2: "upper ''usd'' = ''RUB'' \<or> upper ''rub'' = ''RUB''"
    by (simp add: upper_def upper_char_def)
  have fresh: "cached_fresh (both_up 5) ''USD'' False holding_usd = Some usd_table"
    by (simp add: cached_fresh_def holding_usd_def init_converter_def both_up_def)
  have conv: "convert (both_up 5) 100 ''usd'' ''rub'' False holding_usd =
       (Inr (Some 9150),
        holding_usd\<lparr>http_log := [RatesGet (api @ ''/USD''), CbrGet cbr_url],
          cache := [(''USD'', JObj [(''rates'', JObj [(''EUR'', JNum (9 / 10)), (''RUB'', JNum (183 / 2))])])],
          cache_timestamps := [(''USD'', 5)]\<rparr>)"
    by (simp add: sample_defs)
  have up: "upper ''usd'' = ''USD''"
    by (simp add: upper_def upper_char_def)
  have rub: "has_rub_rate usd_table = Inr True"
    by (simp add: has_rub_rate_def usd_table_def)
  have log: "http_log holding_usd = []"
    by (simp add: holding_usd_def init_converter_def)
  have src: "source_a (both_up 5) = Body usd_table"
    by (simp add: both_up_def)
  have url: "api_url holding_usd = api"
    by (simp add: holding_usd_def init_converter_def)
  from rub_conversion_refetches [OF 1 2, of False "both_up 5" holding_usd 100] fresh conv
  show ?thesis
    by (simp add: up rub log src url)
qed

text \<open>
  The claim as it was stated promises an attempt at the feed in every such call. Two calls
  without one: from RUB to USD while the rates API is down, and from USD to RUB when the
  table of the API has no RUB entry.
\<close>

theorem rub_conversion_without_feed_counterexample:
  "upper ''RUB'' \<noteq> upper ''USD''
   \<and> http_log (snd (convert (both_down 1) 100 ''RUB'' ''USD'' False (init_converter api))) =
       [RatesGet (api @ ''/RUB'')]
   \<and> CbrGet cbr_url \<notin>
       set (http_log (snd (convert (both_down 1) 100 ''RUB'' ''USD'' False (init_converter api))))
   \<and> http_log (snd (get_rate (answering eur_only_table 1) ''USD'' ''RUB'' False (init_converter api))) =
       [RatesGet (api @ ''/USD'')]
   \<and> CbrGet cbr_url \<notin>
       set (http_log (snd (get_rate (answering eur_only_table 1) ''USD'' ''RUB'' False
         (init_converter api))))"
  by (simp add: sample_defs)

section \<open>The list of available currencies\<close>

text \<open>
  Claim C1, as the code has it. When \<open>get_exchange_rates\<close> yields a table with a
  dictionary of rates, \<open>get_available_currencies\<close> returns the keys of that dictionary
  followed by the upper-cased base currency, sorted ascending. As a set the result is the
  keys together with the base; as a multiset it is the keys and one more occurrence of the
  base. Nothing removes duplicates: the result has no repeated element exactly when the
  base is not among the keys.
\<close>

theorem available_currencies_sorted_with_base:
  assumes "get_exchange_rates env (upper base_currency) False self = (Inr (JObj table), self')"
    and "map_of table ''rates'' = Some (JObj rates)"
    and "distinct (map fst rates)"
  shows "get_available_currencies env base_currency self =
           (Inr (sort (map fst rates @ [upper base_currency])), self')
       \<and> sorted (sort (map fst rates @ [upper base_currency]))
       \<and> set (sort (map fst rates @ [upper base_currency])) =
           fst ` set rates \<union> {upper base_currency}
       \<and> mset (sort (map fst rates @ [upper base_currency])) =
           mset (map fst rates) + {#upper base_currency#}
       \<and> distinct (sort (map fst rates @ [upper base_currency])) =
           (upper base_currency \<notin> fst ` set rates)"
proof -
  have "get_available_currencies env base_currency self =
           (Inr (sort (map fst rates @ [upper base_currency])), self')"
    using assms(1,2) by (simp add: get_available_currencies_def rates_of_table)
  moreover have "distinct (sort (map fst rates @ [upper base_currency])) =
           (upper base_currency \<notin> fst ` set rates)"
    using assms(3) by auto
  ultimately show ?thesis by simp
qed

theorem available_currencies_sorted_with_base_witness:
  "get_available_currencies (both_up 3) ''usd'' (init_converter api) =
     (Inr [''EUR'', ''RUB'', ''USD''], snd (get_exchange_rates (both_up 3) ''USD'' False (init_converter api)))
   \<and> distinct [''EUR'', ''RUB'', ''USD'']"
proof -
  have up: "upper ''usd'' = ''USD''"
    by (simp add: upper_def upper_char_def)
  have 1: "get_exchange_rates (both_up 3) (upper ''usd'') False (init_converter api) =
      (Inr (JObj [(''rates'', JObj [(''EUR'', JNum (9 / 10)), (''RUB'', JNum (183 / 2))])]),
       snd (get_exchange_rates (both_up 3) ''USD'' False (init_converter api)))"
    by (simp add: sample_defs)
  have 2: "map_of [(''rates'', JObj [(''EUR'', JNum (9 / 10)), (''RUB'', JNum (183 / 2))])] ''rates'' =
      Some (JObj [(''EUR'', JNum (9 / 10)), (''RUB'', JNum (183 / 2))])"
    by simp
  have 3: "distinct (map fst [(''EUR'', JNum (9 / 10)), (''RUB'', JNum (183 / 2))])"
    by simp
  have s: "sort [''EUR'', ''RUB'', ''USD''] = [''EUR'', ''RUB'', ''USD'']"
    by simp
  from available_currencies_sorted_with_base [OF 1 2 3]
  show ?thesis by (simp add: up s)
qed

text \<open>
  The claim as it was stated promises a list without duplicates also when the base is among
  the keys. For a table of base USD that lists USD itself, the base comes twice.
\<close>

theorem available_currencies_duplicate_counterexample:
  "fst (get_available_currencies (answering usd_self_table 0) ''USD'' (init_converter api)) =
     Inr [''EUR'', ''USD'', ''USD'']
   \<and> \<not> distinct [''EUR'', ''USD'', ''USD'']"
  by (simp add: sample_defs)

section \<open>A body without rates\<close>

text \<open>
  Claim C2, as the code has it. When the call reaches the rates API and the body parses to
  an object that has no \<open>rates\<close> member, \<open>get_exchange_rates\<close> does not fail: it returns
  the parsed object and stores it in the cache under the base currency, with the time of
  storing. The missing member is noticed by the callers: in the same situation \<open>convert\<close>
  and \<open>get_rate\<close> return \<^verbatim>\<open>None\<close> and \<open>get_available_currencies\<close> returns the empty list.
\<close>

theorem body_without_rates_is_cached:
  assumes "cached_fresh env base_currency force_update self = None"
    and "source_a env = Body (JObj members)"
    and "''rates'' \<notin> fst ` set members"
  shows "get_exchange_rates env base_currency force_update self =
           (Inr (JObj members),
            self\<lparr>http_log := http_log self @ [RatesGet (api_url self @ ''/'' @ base_currency)],
                  cache := AList.update base_currency (JObj members) (cache self),
                  cache_timestamps :=
                    AList.update base_currency (now_store env) (cache_timestamps self)\<rparr>)
       \<and> (\<forall>amount from_currency to_currency.
             upper from_currency = base_currency \<and> upper to_currency \<noteq> base_currency \<longrightarrow>
               fst (convert env amount from_currency to_currency force_update self) = Inr None
             \<and> fst (get_rate env from_currency to_currency force_update self) = Inr JNull)
       \<and> (\<forall>code. upper code = base_currency \<and> \<not> force_update \<longrightarrow>
             fst (get_available_currencies env code self) = Inr [])"
proof -
  have norub: "has_rub_rate (JObj members) = Inr False"
    using assms(3) by (simp add: has_rub_rate_def)
  have call: "get_exchange_rates env base_currency f self =
           (Inr (JObj members),
            self\<lparr>http_log := http_log self @ [RatesGet (api_url self @ ''/'' @ base_currency)],
                  cache := AList.update base_currency (JObj members) (cache self),
                  cache_timestamps :=
                    AList.update base_currency (now_store env) (cache_timestamps self)\<rparr>)"
    if "cached_fresh env base_currency f self = None" for f
    using that assms(2) norub
    by (simp add: get_exchange_rates_def fetch_rates_def reconcile_and_store_def store_rates_def)
  have miss: "cached_fresh env base_currency (rub_forces c d force_update) self = None" for c d
    proof (cases "rub_forces c d force_update")
    case True
    then show ?thesis by (simp add: cached_fresh_def)
  next
    case False
    then have "rub_forces c d force_update = force_update"
      by (simp add: rub_forces_def split: if_splits)
    with assms(1) show ?thesis by simp
  qed
  have none: "lookup_rate (JObj members) code = Inr None" for code
    using assms(3) by (simp add: lookup_rate_def rates_of_no_rates)
  have conv: "fst (convert env amount c d force_update self) = Inr None"
    if "upper c = base_currency" "upper d \<noteq> base_currency" for amount c d
    using that call [OF miss, of c d] by (simp add: convert_def none)
  have rate: "fst (get_rate env c d force_update self) = Inr JNull"
    if "upper c = base_currency" "upper d \<noteq> base_currency" for c d
    using that call [OF miss, of c d] by (simp add: get_rate_def none)
  have avail: "fst (get_available_currencies env code self) = Inr []"
    if "upper code = base_currency" "\<not> force_update" for code
    using that call [OF assms(1)] assms(3)
    by (simp add: get_available_currencies_def rates_of_no_rates)
  from call [OF assms(1)] conv rate avail show ?thesis by blast
qed


theorem body_without_rates_is_cached_witness:
  "get_exchange_rates (answering error_body 4) ''XXX'' False (init_converter api) =
     (Inr error_body,
      (init_converter api)\<lparr>http_log := [RatesGet (api @ ''/XXX'')],
        cache := [(''XXX'', error_body)], cache_timestamps := [(''XXX'', 4)]\<rparr>)
   \<and> fst (convert (answering error_body 4) 10 ''xxx'' ''usd'' False (init_converter api)) = Inr None
   \<and> fst (get_rate (answering error_body 4) ''xxx'' ''usd'' False (init_converter api)) = Inr JNull
   \<and> fst (get_available_currencies (answering error_body 4) ''xxx'' (init_converter api)) = Inr []"
proof -
  have 1: "cached_fresh (answering error_body 4) ''XXX'' False (init_converter api) = None"
    by (simp add: cached_fresh_def init_converter_def)
  have 2: "source_a (answering error_body 4) =
      Body (JObj [(''result'', JStr ''error''), (''error-type'', JStr ''unsupported-code'')])"
    by (simp add: answering_def error_body_def)
  have 3: "''rates'' \<notin> fst ` set [(''result'', JStr ''error''), (''error-type'', JStr ''unsupported-code'')]"
    by simp
  have up: "upper ''xxx'' = ''XXX''" "upper ''usd'' = ''USD''"
    by (simp_all add: upper_def upper_char_def)
  from body_without_rates_is_cached [OF 1 2 3] up
  have "get_exchange_rates (answering error_body 4) ''XXX'' False (init_converter api) =
     (Inr error_body,
      (init_converter api)\<lparr>http_log := [RatesGet (api @ ''/XXX'')],
        cache := [(''XXX'', error_body)], cache_timestamps := [(''XXX'', 4)]\<rparr>)"
    and "fst (convert (answering error_body 4) 10 ''xxx'' ''usd'' False (init_converter api)) = Inr None"
    and "fst (get_rate (answering error_body 4) ''xxx'' ''usd'' False (init_converter api)) = Inr JNull"
    and "fst (get_available_currencies (answering error_body 4) ''xxx'' (init_converter api)) = Inr []"
    by (simp_all add: init_converter_def answering_def error_body_def)
  then show ?thesis by (intro conjI)
qed

text \<open>
  The claim as it was stated promises a failure with nothing stored. For a body of the kind
  the API sends for a code it does not know, the call returns the body, not \<^verbatim>\<open>None\<close>, and
  the cache holds it afterwards.
\<close>

theorem body_without_rates_is_cached_counterexample:
  "get_exchange_rates (answering error_body 4) ''XXX'' False (init_converter api) =
     (Inr error_body,
      (init_converter api)\<lparr>http_log := [RatesGet (api @ ''/XXX'')],
        cache := [(''XXX'', error_body)], cache_timestamps := [(''XXX'', 4)]\<rparr>)
   \<and> error_body \<noteq> JNull
   \<and> py_in ''rates'' error_body = Inr False"
  by (simp add: sample_defs)


section \<open>Upper-casing of the currency codes\<close>

text \<open>
  Claim C3, as the code has it. \<open>convert\<close>, \<open>get_rate\<close> and \<open>get_available_currencies\<close>
  upper-case their currency codes before anything else, so each behaves on a code as on
  its upper-cased form: same result, same cache entry read and written. On a converter
  used only through these three and \<open>clear_cache\<close>, every key of the cache is an
  upper-cased code, no key occurs twice, and no two keys differ only in letter case.
  \<open>get_exchange_rates\<close> itself uses its argument as the key without upper-casing it.
\<close>

theorem codes_upper_cased_by_callers:
  "convert env amount c d f self = convert env amount (upper c) (upper d) f self
   \<and> get_rate env c d f self = get_rate env (upper c) (upper d) f self
   \<and> get_available_currencies env b self = get_available_currencies env (upper b) self
   \<and> (list_all (\<lambda>(env, c). upper_cases_codes c) cs \<longrightarrow>
        (\<forall>k \<in> fst ` set (cache (run cs (init_converter url))). upper k = k)
        \<and> distinct (map fst (cache (run cs (init_converter url))))
        \<and> (\<forall>j \<in> fst ` set (cache (run cs (init_converter url))).
            \<forall>k \<in> fst ` set (cache (run cs (init_converter url))).
              upper j = upper k \<longrightarrow> j = k))"
proof -
  have conv: "convert env amount c d f self = convert env amount (upper c) (upper d) f self"
    unfolding convert_def upper_idem rub_forces_upper by (rule refl)
  have rate: "get_rate env c d f self = get_rate env (upper c) (upper d) f self"
    unfolding get_rate_def upper_idem rub_forces_upper by (rule refl)
  have avail: "get_available_currencies env b self = get_available_currencies env (upper b) self"
    unfolding get_available_currencies_def upper_idem by (rule refl)
  have keys: "(\<forall>k \<in> fst ` set (cache (run cs (init_converter url))). upper k = k)
        \<and> distinct (map fst (cache (run cs (init_converter url))))
        \<and> (\<forall>j \<in> fst ` set (cache (run cs (init_converter url))).
            \<forall>k \<in> fst ` set (cache (run cs (init_converter url))).
              upper j = upper k \<longrightarrow> j = k)"
    if calls: "list_all (\<lambda>(env, c). upper_cases_codes c) cs"
  proof -
    have "\<forall>k \<in> fst ` set (cache (init_converter url)). upper k = k"
      and "distinct (map fst (cache (init_converter url)))"
      by (simp_all add: init_converter_def)
    from run_keys [OF calls this]
    have up: "\<forall>k \<in> fst ` set (cache (run cs (init_converter url))). upper k = k"
      and di: "distinct (map fst (cache (run cs (init_converter url))))"
      by blast+
    from up have "\<forall>j \<in> fst ` set (cache (run cs (init_converter url))).
            \<forall>k \<in> fst ` set (cache (run cs (init_converter url))).
              upper j = upper k \<longrightarrow> j = k"
      by metis
    with up di show ?thesis by blast
  qed
  from conv rate avail keys show ?thesis by blast
qed

theorem codes_upper_cased_by_callers_witness:
  "convert (both_up 5) 100 ''usd'' ''eur'' False holding_usd =
     convert (both_up 5) 100 ''USD'' ''EUR'' False holding_usd
   \<and> list_all (\<lambda>(env, c). upper_cases_codes c) sample_calls
   \<and> map fst (cache (run sample_calls (init_converter api))) = [''EUR'', ''USD'']
   \<and> distinct (map fst (cache (run sample_calls (init_converter api))))"
proof -
  have calls: "list_all (\<lambda>(env, c). upper_cases_codes c) sample_calls"
    by (simp add: sample_calls_def)
  have up: "upper ''usd'' = ''USD''" "upper ''eur'' = ''EUR''"
    by (simp_all add: upper_def upper_char_def)
  have keys: "map fst (cache (run sample_calls (init_converter api))) = [''EUR'', ''USD'']"
    by (simp add: sample_defs)
  from codes_upper_cased_by_callers
    [of "both_up 5" 100 "''usd''" "''eur''" False holding_usd "''usd''" sample_calls api]
    calls keys
  show ?thesis by (simp add: up)
qed

text \<open>
  The claim as it was stated covers every operation. Two direct calls of
  \<open>get_exchange_rates\<close>, for \<open>usd\<close> and for \<open>USD\<close>, leave two entries for the one code.
\<close>

theorem lower_case_base_second_entry_counterexample:
  "upper ''usd'' = upper ''USD''
   \<and> map fst (cache (run [(both_up 0, GetExchangeRates ''usd'' False),
                          (both_up 1, GetExchangeRates ''USD'' False)] (init_converter api))) =
       [''usd'', ''USD'']
   \<and> ''usd'' \<noteq> ''USD''"
  by (simp add: sample_defs)


end
